theory Spec2Isabelle
  imports Complex_Main "HOL-Library.Product_Lexorder"
begin

section \<open>Python strings\<close>

text \<open>
  Python \<open>str\<close> values are modelled as \<open>string\<close> (lists of characters). The queries,
  lexicon words and field values of this development are ASCII; \<open>lower\<close> maps the letters
  \<open>A\<close>..\<open>Z\<close> and leaves every other character alone.
\<close>

definition lower_char :: "char \<Rightarrow> char" where
  "lower_char c =
     (case map_of (zip ''ABCDEFGHIJKLMNOPQRSTUVWXYZ'' ''abcdefghijklmnopqrstuvwxyz'') c of
        None \<Rightarrow> c
      | Some d \<Rightarrow> d)"

definition lower :: "string \<Rightarrow> string" where
  "lower s = map lower_char s"

text \<open>The characters \<open>str.isspace\<close> accepts below code point 256.\<close>

definition is_space :: "char \<Rightarrow> bool" where
  "is_space c = (c \<in> set [CHR '' '', CHR 0x09, CHR 0x0A, CHR 0x0B, CHR 0x0C, CHR 0x0D,
                           CHR 0x1C, CHR 0x1D, CHR 0x1E, CHR 0x1F, CHR 0x85, CHR 0xA0])"

definition strip :: "string \<Rightarrow> string" where
  "strip s = rev (dropWhile is_space (rev (dropWhile is_space s)))"

text \<open>\<open>s.split()\<close>: the maximal runs of non-whitespace characters, in order.\<close>

fun split_from :: "string \<Rightarrow> string \<Rightarrow> string list" where
  "split_from cur [] = (if cur = [] then [] else [cur])"
| "split_from cur (c # cs) =
     (if is_space c then (if cur = [] then split_from [] cs else cur # split_from [] cs)
      else split_from (cur @ [c]) cs)"

definition split :: "string \<Rightarrow> string list" where
  "split s = split_from [] s"

text \<open>\<open>needle in hay\<close> on strings is the substring test.\<close>

fun starts_with :: "string \<Rightarrow> string \<Rightarrow> bool" where
  "starts_with [] hay = True"
| "starts_with (c # cs) [] = False"
| "starts_with (c # cs) (d # ds) = (c = d \<and> starts_with cs ds)"

fun str_in :: "string \<Rightarrow> string \<Rightarrow> bool" where
  "str_in needle [] = (needle = [])"
| "str_in needle (d # ds) = (starts_with needle (d # ds) \<or> str_in needle ds)"

text \<open>Django's \<open>icontains\<close> lookup: substring test that ignores case.\<close>

definition icontains :: "string \<Rightarrow> string \<Rightarrow> bool" where
  "icontains field_value needle = str_in (lower needle) (lower field_value)"

section \<open>Exceptions\<close>

text \<open>
  Every exception the modelled code can raise is a value; a computation that may raise
  returns \<open>error + 'a\<close> with \<open>Inl\<close> for the exception.
\<close>

datatype error =
    FieldError
  | TypeError
  | NameError
  | AttributeError
  | DoesNotExist
  | EstimatorError

section \<open>Query parser (marketplace/ai_search.py)\<close>

text \<open>
  The dict \<open>parsed\<close> has a fixed set of keys; it is a record whose field \<open>pq_k\<close> is the
  value under key \<open>k\<close>.
\<close>

record parsed_query =
  pq_keywords :: "string list"
  pq_category :: "string option"
  pq_price_range :: "string option"
  pq_quality :: "string option"
  pq_location :: "string option"

definition price_indicators :: "string list" where
  "price_indicators = [''cheap'', ''expensive'', ''affordable'', ''budget'', ''premium'']"

definition price_band :: "string \<Rightarrow> string" where
  "price_band indicator =
     (if indicator \<in> set [''cheap'', ''affordable'', ''budget''] then ''low'' else ''high'')"

text \<open>
  The price loop visits every indicator and overwrites \<open>parsed['price_range']\<close> at each
  one that occurs in the query.
\<close>

fun price_loop :: "string \<Rightarrow> string list \<Rightarrow> string option \<Rightarrow> string option" where
  "price_loop query [] current = current"
| "price_loop query (indicator # rest) current =
     price_loop query rest
       (if str_in indicator query then Some (price_band indicator) else current)"

text \<open>The dict \<open>quality_terms\<close>, in insertion order (the order \<open>items()\<close> yields).\<close>

definition quality_terms :: "(string \<times> string) list" where
  "quality_terms =
     [(''premium'', ''PREMIUM''),
      (''organic'', ''PREMIUM''),
      (''high quality'', ''PREMIUM''),
      (''standard'', ''STANDARD''),
      (''economy'', ''ECONOMY''),
      (''budget'', ''ECONOMY'')]"

text \<open>The quality loop leaves at the first term that occurs in the query (\<open>break\<close>).\<close>

fun quality_loop :: "string \<Rightarrow> (string \<times> string) list \<Rightarrow> string option \<Rightarrow> string option" where
  "quality_loop query [] current = current"
| "quality_loop query ((trm, grade) # rest) current =
     (if str_in trm query then Some grade else quality_loop query rest current)"

definition location_indicators :: "string list" where
  "location_indicators = [''near'', ''in'', ''from'', ''local'']"

text \<open>
  The location loop: the word after the first indicator that is not the last word.
\<close>

fun location_loop :: "string list \<Rightarrow> string option" where
  "location_loop [] = None"
| "location_loop [w] = None"
| "location_loop (w # next_word # rest) =
     (if w \<in> set location_indicators then Some next_word
      else location_loop (next_word # rest))"

definition stop_words :: "string list" where
  "stop_words = [''the'', ''a'', ''an'', ''and'', ''or'', ''but'', ''in'', ''on'', ''at'',
                 ''to'', ''for'', ''of'', ''with'', ''by'']"

definition parse_natural_language :: "string \<Rightarrow> parsed_query" where
  "parse_natural_language raw =
     (let query = strip (lower raw);
          words = split query
      in \<lparr> pq_keywords = filter (\<lambda>w. w \<notin> set stop_words \<and> length w > 2) words,
           pq_category = None,
           pq_price_range = price_loop query price_indicators None,
           pq_quality = quality_loop query quality_terms None,
           pq_location = location_loop words \<rparr>)"

text \<open>
  The two scan policies in the words of the specification: the first matching entry of a
  lexicon, and the last one.
\<close>

definition first_match :: "('a \<Rightarrow> bool) \<Rightarrow> 'a list \<Rightarrow> 'a option" where
  "first_match P xs = (case filter P xs of [] \<Rightarrow> None | x # _ \<Rightarrow> Some x)"

definition last_match :: "('a \<Rightarrow> bool) \<Rightarrow> 'a list \<Rightarrow> 'a option" where
  "last_match P xs = (case rev (filter P xs) of [] \<Rightarrow> None | x # _ \<Rightarrow> Some x)"

section \<open>Python values, dicts and Django model tables\<close>

text \<open>
  Dynamically typed values: what a dict can hold and what a model column can store.
  A decimal is an exact rational and a number under \<open>VNum\<close> is a decimal or a finite
  float; a date is its day number.
\<close>

datatype val =
    VNone
  | VBool bool
  | VInt int
  | VNum rat
  | VStr string
  | VDate int
  | VUser nat
  | VList "val list"
  | VDict "(string \<times> val) list"

type_synonym dict = "(string \<times> val) list"

text \<open>\<open>d.get(k, default)\<close>.\<close>

definition dict_get :: "dict \<Rightarrow> string \<Rightarrow> val \<Rightarrow> val" where
  "dict_get d k default_value = (case map_of d k of None \<Rightarrow> default_value | Some v \<Rightarrow> v)"

text \<open>Truth value testing (\<open>if x:\<close>).\<close>

fun truthy :: "val \<Rightarrow> bool" where
  "truthy VNone = False"
| "truthy (VBool b) = b"
| "truthy (VInt i) = (i \<noteq> 0)"
| "truthy (VNum x) = (x \<noteq> 0)"
| "truthy (VStr s) = (s \<noteq> [])"
| "truthy (VDate d) = True"
| "truthy (VUser u) = True"
| "truthy (VList xs) = (xs \<noteq> [])"
| "truthy (VDict kvs) = (kvs \<noteq> [])"

text \<open>
  A table of a Django model is the list of its rows in creation order; a row is the
  association list of its columns. A keyword argument of \<open>objects.filter\<close> that names no
  field of the model raises \<open>FieldError\<close>; a keyword argument of \<open>objects.create\<close> that
  names no field raises \<open>TypeError\<close>.
\<close>

type_synonym row = "(string \<times> val) list"

definition objects_filter :: "string list \<Rightarrow> row list \<Rightarrow> dict \<Rightarrow> error + row list" where
  "objects_filter field_names rows kwargs =
     (if list_all (\<lambda>(k, v). k \<in> set field_names) kwargs
      then Inr (filter (\<lambda>r. list_all (\<lambda>(k, v). map_of r k = Some v) kwargs) rows)
      else Inl FieldError)"

definition objects_create :: "string list \<Rightarrow> row list \<Rightarrow> dict \<Rightarrow> error + row list" where
  "objects_create field_names rows kwargs =
     (if list_all (\<lambda>(k, v). k \<in> set field_names) kwargs
      then Inr (rows @ [kwargs])
      else Inl TypeError)"

text \<open>Reading an attribute of a model instance.\<close>

definition instance_attr :: "string list \<Rightarrow> row \<Rightarrow> string \<Rightarrow> error + val" where
  "instance_attr field_names r k =
     (if k \<in> set field_names then Inr (dict_get r k VNone) else Inl AttributeError)"

text \<open>The fields of \<open>PricePrediction\<close> and \<open>SearchQueryLog\<close> (marketplace/models.py).\<close>

definition PricePrediction_fields :: "string list" where
  "PricePrediction_fields =
     [''id'', ''pk'', ''crop_type'', ''region'', ''predicted_price'', ''current_price'',
      ''confidence'', ''prediction_period'', ''trend'', ''price_change_percentage'',
      ''min_predicted_price'', ''max_predicted_price'', ''data_sources'',
      ''algorithm_version'', ''is_active'', ''market_factors'', ''created_at'',
      ''updated_at'']"

definition SearchQueryLog_fields :: "string list" where
  "SearchQueryLog_fields =
     [''id'', ''pk'', ''user'', ''user_id'', ''query'', ''results_count'', ''filters_applied'',
      ''search_duration'', ''is_successful'', ''click_count'', ''session_id'',
      ''user_agent'', ''created_at'']"

text \<open>
  \<open>PricePrediction\<close> is ordered by \<open>-created_at\<close>, so \<open>first()\<close> is the row created
  last.
\<close>

definition first_row :: "row list \<Rightarrow> row option" where
  "first_row rows = (case rev rows of [] \<Rightarrow> None | r # _ \<Rightarrow> Some r)"

section \<open>Python floats\<close>

text \<open>
  A Python float is an IEEE 754 double. A finite double is the rational number it
  denotes. \<open>fl x\<close> is the double nearest to the rational \<open>x\<close>, a tie going to the even
  significand, with gradual underflow: it is what a float literal written \<open>x\<close> denotes
  and what an arithmetic operation with the exact result \<open>x\<close> returns. Magnitudes from
  \<open>2 ^ 1024\<close> on, which overflow, are far from any value that occurs here.
\<close>

function bit_length :: "int \<Rightarrow> int" where
  "bit_length p = (if p \<le> 0 then 0 else bit_length (p div 2) + 1)"
  by pat_completeness auto
termination
  by (relation "measure nat") auto

declare bit_length.simps [simp del]

definition pow2 :: "int \<Rightarrow> rat" where
  "pow2 k = (if 0 \<le> k then 2 ^ nat k else 1 / 2 ^ nat (- k))"

definition round_half_even :: "rat \<Rightarrow> int" where
  "round_half_even y =
     (let f = \<lfloor>y\<rfloor>; d = y - of_int f
      in if d < 1 / 2 then f
         else if 1 / 2 < d then f + 1
         else if even f then f
         else f + 1)"

text \<open>The exponent \<open>e\<close> with \<open>2 ^ e \<le> \<bar>x\<bar> < 2 ^ (e + 1)\<close>, for \<open>x \<noteq> 0\<close>.\<close>

definition binary_exponent :: "rat \<Rightarrow> int" where
  "binary_exponent x =
     (let (p, q) = quotient_of \<bar>x\<bar>;
          k = bit_length p - bit_length q
      in if pow2 k \<le> \<bar>x\<bar> then k else k - 1)"

definition fl :: "rat \<Rightarrow> rat" where
  "fl x =
     (if x = 0 then 0
      else (let e = max (binary_exponent x - 52) (- 1074)
            in of_int (round_half_even (x / pow2 e)) * pow2 e))"

definition fadd :: "rat \<Rightarrow> rat \<Rightarrow> rat" where
  "fadd a b = fl (a + b)"

definition fsub :: "rat \<Rightarrow> rat \<Rightarrow> rat" where
  "fsub a b = fl (a - b)"

definition fmul :: "rat \<Rightarrow> rat \<Rightarrow> rat" where
  "fmul a b = fl (a * b)"

text \<open>
  \<open>round(x, 2)\<close> of a double \<open>x\<close>: the exact value of \<open>x\<close> is rounded to the nearest
  hundredth, a tie going to the even one, and the result is the double nearest to
  that hundredth.
\<close>

definition round2 :: "rat \<Rightarrow> rat" where
  "round2 x = fl (of_int (round_half_even (x * 100)) / 100)"

text \<open>
  A float can also be infinite or not a number. \<open>a > b\<close> is false whenever one side is
  not a number, and \<open>max(a, b)\<close> returns \<open>a\<close> unless \<open>b > a\<close>.
\<close>

datatype pyfloat = Finite rat | PosInf | NegInf | NaN

fun float_gt :: "pyfloat \<Rightarrow> pyfloat \<Rightarrow> bool" where
  "float_gt NaN b = False"
| "float_gt a NaN = False"
| "float_gt (Finite x) (Finite y) = (y < x)"
| "float_gt (Finite x) PosInf = False"
| "float_gt (Finite x) NegInf = True"
| "float_gt PosInf PosInf = False"
| "float_gt PosInf b = True"
| "float_gt NegInf b = False"

definition py_max :: "pyfloat \<Rightarrow> pyfloat \<Rightarrow> pyfloat" where
  "py_max a b = (if float_gt b a then b else a)"

text \<open>A float is strictly positive.\<close>

definition float_positive :: "pyfloat \<Rightarrow> bool" where
  "float_positive a = float_gt a (Finite 0)"

section \<open>Price predictor (marketplace/ai_search.py, class PricePredictor)\<close>

text \<open>\<open>_get_seasonal_factor\<close> of \<open>PromptBasedSearchAI\<close>, the month read from the clock.\<close>

definition get_seasonal_factor :: "nat \<Rightarrow> rat" where
  "get_seasonal_factor month =
     (case map_of [(1, 1.1), (2, 1.0), (3, 0.9), (4, 0.8), (5, 0.9), (6, 1.0),
                   (7, 1.1), (8, 1.2), (9, 1.1), (10, 1.0), (11, 0.9), (12, 1.0)] month of
        None \<Rightarrow> 1.0
      | Some f \<Rightarrow> f)"

text \<open>
  What an instance of \<open>PricePredictor\<close> has: the attribute set in \<open>__init__\<close> and the
  methods of the class (it has no base class). Calling any other name on \<open>self\<close> raises
  \<open>AttributeError\<close>.
\<close>

definition PricePredictor_attributes :: "string list" where
  "PricePredictor_attributes =
     [''search_ai'', ''__init__'', ''predict_market_prices'', ''_generate_price_prediction'',
      ''_get_current_market_price'', ''_get_demand_trend'', ''_get_supply_outlook'',
      ''_get_weather_impact'']"

definition self_call :: "string \<Rightarrow> 'a \<Rightarrow> error + 'a" where
  "self_call name result =
     (if name \<in> set PricePredictor_attributes then Inr result else Inl AttributeError)"

definition get_current_market_price :: "string \<Rightarrow> string \<Rightarrow> rat" where
  "get_current_market_price crop_type region =
     (case map_of [(''maize'', 150.0), (''wheat'', 180.0), (''rice'', 200.0),
                   (''beans'', 300.0), (''tomatoes'', 250.0)] (lower crop_type) of
        None \<Rightarrow> 100.0
      | Some p \<Rightarrow> p)"

definition get_demand_trend :: "string \<Rightarrow> rat" where
  "get_demand_trend crop_type = 1.05"

definition get_supply_outlook :: "string \<Rightarrow> string \<Rightarrow> rat" where
  "get_supply_outlook crop_type region = 0.98"

definition get_weather_impact :: "string \<Rightarrow> rat" where
  "get_weather_impact region = 1.02"

text \<open>
  The confidence expression: \<open>max(0.1, 0.8 - (days_ahead / 100))\<close>, in float
  arithmetic. The true division of two integers gives the double nearest to the
  quotient.
\<close>

definition confidence_calculation :: "int \<Rightarrow> rat" where
  "confidence_calculation days_ahead =
     max (fl 0.1) (fsub (fl 0.8) (fl (of_int days_ahead / 100)))"

text \<open>
  \<open>_generate_price_prediction\<close>. Its second statement calls
  \<open>self._get_seasonal_factor()\<close>; the only function of that name belongs to
  \<open>PromptBasedSearchAI\<close>. The factor functions give the decimal their float literal is
  written as; the literal denotes the double nearest to it.
\<close>

definition generate_price_prediction :: "nat \<Rightarrow> string \<Rightarrow> string \<Rightarrow> int \<Rightarrow> error + dict" where
  "generate_price_prediction month crop_type region days_ahead =
     (let base_price = fl (get_current_market_price crop_type region)
      in case self_call ''_get_seasonal_factor'' (fl (get_seasonal_factor month)) of
           Inl e \<Rightarrow> Inl e
         | Inr seasonal_factor \<Rightarrow>
             (let demand_trend = fl (get_demand_trend crop_type);
                  supply_outlook = fl (get_supply_outlook crop_type region);
                  weather_impact = fl (get_weather_impact region);
                  predicted_price =
                    fmul (fmul (fmul (fmul base_price seasonal_factor) demand_trend)
                            supply_outlook) weather_impact;
                  confidence = confidence_calculation days_ahead
              in Inr [(''predicted_price'', VNum (round2 predicted_price)),
                      (''confidence'', VNum confidence),
                      (''factors'',
                         VDict [(''seasonal_impact'', VNum seasonal_factor),
                               (''demand_trend'', VNum demand_trend),
                               (''supply_outlook'', VNum supply_outlook),
                               (''weather_impact'', VNum weather_impact),
                               (''base_price'', VNum base_price)])]))"

text \<open>
  The body of the \<open>try\<close> block of \<open>predict_market_prices\<close>: the answer and the table
  after it, or the exception raised. \<open>today\<close> is \<open>datetime.now().date()\<close>.
\<close>

definition predict_body ::
  "row list \<Rightarrow> int \<Rightarrow> nat \<Rightarrow> string \<Rightarrow> string \<Rightarrow> int \<Rightarrow> error + (dict \<times> row list)" where
  "predict_body table today month crop_type region days_ahead =
     (case objects_filter PricePrediction_fields table
             [(''crop_type'', VStr crop_type), (''region'', VStr region),
              (''prediction_horizon'', VInt days_ahead), (''prediction_date'', VDate today)] of
        Inl e \<Rightarrow> Inl e
      | Inr found \<Rightarrow>
          (case first_row found of
             Some existing_prediction \<Rightarrow>
               (case instance_attr PricePrediction_fields existing_prediction ''predicted_price'' of
                  Inl e \<Rightarrow> Inl e
                | Inr price \<Rightarrow>
               (case instance_attr PricePrediction_fields existing_prediction ''confidence'' of
                  Inl e \<Rightarrow> Inl e
                | Inr conf \<Rightarrow>
               (case instance_attr PricePrediction_fields existing_prediction ''factors'' of
                  Inl e \<Rightarrow> Inl e
                | Inr factors \<Rightarrow>
                    Inr ([(''crop_type'', VStr crop_type), (''region'', VStr region),
                          (''predicted_price'', price), (''confidence'', conf),
                          (''horizon_days'', VInt days_ahead), (''factors'', factors),
                          (''source'', VStr ''cached'')], table))))
           | None \<Rightarrow>
               (case generate_price_prediction month crop_type region days_ahead of
                  Inl e \<Rightarrow> Inl e
                | Inr prediction \<Rightarrow>
                    (case objects_create PricePrediction_fields table
                            [(''crop_type'', VStr crop_type), (''region'', VStr region),
                             (''predicted_price'', dict_get prediction ''predicted_price'' VNone),
                             (''confidence'', dict_get prediction ''confidence'' VNone),
                             (''prediction_date'', VDate today),
                             (''prediction_horizon'', VInt days_ahead),
                             (''factors'', dict_get prediction ''factors'' VNone)] of
                       Inl e \<Rightarrow> Inl e
                     | Inr table' \<Rightarrow>
                         Inr (prediction @ [(''source'', VStr ''new_prediction'')], table')))))"

text \<open>
  \<open>predict_market_prices\<close>: \<open>except Exception\<close> turns every exception of the body into
  the "Prediction unavailable" dict and leaves the table as it was.
\<close>

definition predict_market_prices ::
  "row list \<Rightarrow> int \<Rightarrow> nat \<Rightarrow> string \<Rightarrow> string \<Rightarrow> int \<Rightarrow> dict \<times> row list" where
  "predict_market_prices table today month crop_type region days_ahead =
     (case predict_body table today month crop_type region days_ahead of
        Inr answer \<Rightarrow> answer
      | Inl e \<Rightarrow>
          ([(''crop_type'', VStr crop_type), (''region'', VStr region),
            (''error'', VStr ''Prediction unavailable''),
            (''horizon_days'', VInt days_ahead)], table))"

section \<open>Search engine (marketplace/ai_search.py, class PromptBasedSearchAI)\<close>

text \<open>
  A row of \<open>ProductListing\<close> with the columns the engine reads, the name and keywords of
  its category and the e-mail address of its farmer. Prices are decimals; scores and
  trends are floats, compared with the thresholds as the decimals they are written as;
  \<open>created_at\<close> is a time stamp.
\<close>

record listing =
  listing_id :: nat
  title :: string
  description :: string
  category_id :: nat
  category_name :: string
  category_keywords :: "string list"
  price :: rat
  quantity :: nat
  status :: string
  quality_grade :: string
  location :: "string option"
  demand_score :: rat
  price_trend :: rat
  created_at :: int
  farmer_email :: string
  image_url :: "string option"

text \<open>A row of \<open>UserPreference\<close>; \<open>preferred_categories\<close> holds category ids.\<close>

record user_preference =
  pref_user :: nat
  preferred_categories :: "nat list"
  quality_preference :: "string option"
  price_range_min :: "rat option"
  price_range_max :: "rat option"
  preferred_location :: string

text \<open>Truth value of an optional decimal and of an optional string.\<close>

definition decimal_set :: "rat option \<Rightarrow> bool" where
  "decimal_set d = (case d of None \<Rightarrow> False | Some x \<Rightarrow> x \<noteq> 0)"

definition string_set :: "string option \<Rightarrow> bool" where
  "string_set s = (case s of None \<Rightarrow> False | Some t \<Rightarrow> t \<noteq> [])"

text \<open>The dict \<open>filters\<close> of a search call: the keys \<open>_apply_filters\<close> reads.\<close>

record search_filters =
  f_category :: "nat option"
  f_min_price :: "rat option"
  f_max_price :: "rat option"
  f_quality :: "string option"
  f_location :: "string option"

definition filters_items :: "search_filters \<Rightarrow> dict" where
  "filters_items f =
     (case f_category f of None \<Rightarrow> [] | Some c \<Rightarrow> [(''category'', VInt (int c))]) @
     (case f_min_price f of None \<Rightarrow> [] | Some x \<Rightarrow> [(''min_price'', VNum x)]) @
     (case f_max_price f of None \<Rightarrow> [] | Some x \<Rightarrow> [(''max_price'', VNum x)]) @
     (case f_quality f of None \<Rightarrow> [] | Some q \<Rightarrow> [(''quality'', VStr q)]) @
     (case f_location f of None \<Rightarrow> [] | Some l \<Rightarrow> [(''location'', VStr l)])"

text \<open>\<open>location__icontains\<close>: a listing without location never matches.\<close>

definition location_icontains :: "listing \<Rightarrow> string \<Rightarrow> bool" where
  "location_icontains l needle =
     (case location l of None \<Rightarrow> False | Some s \<Rightarrow> icontains s needle)"

definition join_space :: "string list \<Rightarrow> string" where
  "join_space ws = (case ws of [] \<Rightarrow> [] | w # rest \<Rightarrow> foldl (\<lambda>acc x. acc @ '' '' @ x) w rest)"

text \<open>
  \<open>_semantic_search\<close>. The full-text search of the database is a parameter: \<open>fts q l\<close>
  is the rank of listing \<open>l\<close> for the search query \<open>q\<close>, or \<open>None\<close> when \<open>l\<close> does not
  match. \<open>order_by('-rank')\<close> is a stable sort here.
\<close>

definition semantic_search ::
  "(string \<Rightarrow> listing \<Rightarrow> rat option) \<Rightarrow> listing list \<Rightarrow> parsed_query \<Rightarrow> listing list" where
  "semantic_search fts queryset parsed =
     (let qs1 =
            (if pq_keywords parsed \<noteq> []
             then (let q = join_space (pq_keywords parsed)
                   in sort_key (\<lambda>l. - the (fts q l)) (filter (\<lambda>l. fts q l \<noteq> None) queryset))
             else queryset);
          qs2 =
            (if string_set (pq_category parsed)
             then filter (\<lambda>l. icontains (category_name l) (the (pq_category parsed))
                              \<or> the (pq_category parsed) \<in> set (category_keywords l)) qs1
             else qs1);
          qs3 =
            (if string_set (pq_quality parsed)
             then filter (\<lambda>l. quality_grade l = the (pq_quality parsed)) qs2
             else qs2);
          qs4 =
            (if string_set (pq_location parsed)
             then filter (\<lambda>l. location_icontains l (the (pq_location parsed))) qs3
             else qs3)
      in qs4)"

definition apply_filters :: "listing list \<Rightarrow> search_filters \<Rightarrow> listing list" where
  "apply_filters queryset f =
     (let qs1 = (case f_category f of None \<Rightarrow> queryset
                 | Some c \<Rightarrow> filter (\<lambda>l. category_id l = c) queryset);
          qs2 = (case f_min_price f of None \<Rightarrow> qs1
                 | Some x \<Rightarrow> filter (\<lambda>l. x \<le> price l) qs1);
          qs3 = (case f_max_price f of None \<Rightarrow> qs2
                 | Some x \<Rightarrow> filter (\<lambda>l. price l \<le> x) qs2);
          qs4 = (case f_quality f of None \<Rightarrow> qs3
                 | Some q \<Rightarrow> filter (\<lambda>l. quality_grade l = q) qs3);
          qs5 = (case f_location f of None \<Rightarrow> qs4
                 | Some s \<Rightarrow> filter (\<lambda>l. location_icontains l s) qs4)
      in qs5)"

text \<open>
  The names bound at module level in ai_search.py: its imports, \<open>logger\<close> and its two
  classes. Reading any other global name raises \<open>NameError\<close>.
\<close>

definition ai_search_globals :: "string list" where
  "ai_search_globals =
     [''pd'', ''np'', ''joblib'', ''os'', ''Dict'', ''List'', ''Optional'', ''Tuple'',
      ''settings'', ''Q'', ''F'', ''Value'', ''FloatField'', ''Concat'', ''SearchQuery'',
      ''SearchRank'', ''SearchVector'', ''ProductListing'', ''PricePrediction'',
      ''UserPreference'', ''SearchQueryLog'', ''logging'', ''datetime'', ''timedelta'',
      ''RandomForestRegressor'', ''TfidfVectorizer'', ''cosine_similarity'', ''requests'',
      ''json'', ''logger'', ''PromptBasedSearchAI'', ''PricePredictor'']"

definition global_name :: "string \<Rightarrow> 'a \<Rightarrow> error + 'a" where
  "global_name name result =
     (if name \<in> set ai_search_globals then Inr result else Inl NameError)"

text \<open>\<open>UserPreference.objects.get(user=user)\<close>.\<close>

definition UserPreference_get :: "user_preference list \<Rightarrow> nat \<Rightarrow> error + user_preference" where
  "UserPreference_get table user =
     (case filter (\<lambda>p. pref_user p = user) table of
        [] \<Rightarrow> Inl DoesNotExist
      | p # _ \<Rightarrow> Inr p)"

text \<open>
  The boost the \<open>Case\<close>/\<open>When\<close> expression assigns to a listing. The annotation adds
  this column and neither removes nor reorders rows; nothing reads the column later.
\<close>

definition preference_boost :: "user_preference \<Rightarrow> listing \<Rightarrow> rat" where
  "preference_boost preferences l =
     (if category_id l \<in> set (preferred_categories preferences) then 1.2 else 1.0)"

definition annotate_preference_boost ::
  "user_preference \<Rightarrow> listing list \<Rightarrow> error + listing list" where
  "annotate_preference_boost preferences queryset = global_name ''models'' queryset"

text \<open>
  \<open>_apply_personalization\<close>: only \<open>UserPreference.DoesNotExist\<close> is caught, and then the
  queryset is returned as it was passed in.
\<close>

definition apply_personalization ::
  "user_preference list \<Rightarrow> listing list \<Rightarrow> nat \<Rightarrow> error + listing list" where
  "apply_personalization table queryset user =
     (case UserPreference_get table user of
        Inl e \<Rightarrow> (if e = DoesNotExist then Inr queryset else Inl e)
      | Inr preferences \<Rightarrow>
          (case (if preferred_categories preferences \<noteq> []
                 then annotate_preference_boost preferences queryset
                 else Inr queryset) of
             Inl e \<Rightarrow> Inl e
           | Inr qs1 \<Rightarrow>
               (let qs2 =
                      (if decimal_set (price_range_min preferences)
                          \<and> decimal_set (price_range_max preferences)
                       then filter (\<lambda>l. the (price_range_min preferences) \<le> price l
                                        \<and> price l \<le> the (price_range_max preferences)) qs1
                       else qs1);
                    qs3 =
                      (if string_set (quality_preference preferences)
                       then filter (\<lambda>l. quality_grade l = the (quality_preference preferences)) qs2
                       else qs2)
                in Inr qs3)))"

definition get_market_volatility :: rat where
  "get_market_volatility = 0.1"

definition get_location_factor :: "string option \<Rightarrow> rat" where
  "get_location_factor loc =
     (if \<not> string_set loc then 1.0
      else (let s = lower (the loc)
            in if str_in ''urban'' s \<or> str_in ''city'' s then 1.2
               else if str_in ''rural'' s \<or> str_in ''village'' s then 0.9
               else 1.0))"

text \<open>
  \<open>_predict_price\<close>. The regressor is a parameter: it maps the feature row to the
  predicted value, any float, or raises. Every exception is caught and answered with
  the current price, a decimal, converted to the nearest double.
\<close>

definition price_features :: "nat \<Rightarrow> listing \<Rightarrow> rat list" where
  "price_features month product =
     [demand_score product,
      get_seasonal_factor month,
      get_market_volatility,
      (if quality_grade product = ''PREMIUM'' then 1 else 0),
      get_location_factor (location product)]"

definition predict_price ::
  "(rat list \<Rightarrow> error + pyfloat) \<Rightarrow> nat \<Rightarrow> listing \<Rightarrow> pyfloat" where
  "predict_price price_model month product =
     (case price_model (price_features month product) of
        Inr predicted_price \<Rightarrow> py_max predicted_price (Finite (fl 0.1))
      | Inl e \<Rightarrow> Finite (fl (price product)))"

record insights =
  demand_level :: string
  price_stability :: string
  best_time_to_buy :: string
  supply_outlook :: string

definition get_market_insights :: "listing \<Rightarrow> insights" where
  "get_market_insights product =
     (let i0 = \<lparr> demand_level = ''Medium'', price_stability = ''Stable'',
                 best_time_to_buy = ''Now'', supply_outlook = ''Adequate'' \<rparr>;
          i1 = (if demand_score product > 0.7
                then i0\<lparr> demand_level := ''High'',
                         best_time_to_buy := ''Soon (prices may rise)'' \<rparr>
                else if demand_score product < 0.3
                then i0\<lparr> demand_level := ''Low'', best_time_to_buy := ''Good time to buy'' \<rparr>
                else i0)
      in if \<bar>price_trend product\<bar> > 5 then i1\<lparr> price_stability := ''Volatile'' \<rparr> else i1)"

record enhanced_product =
  ep_id :: nat
  ep_title :: string
  ep_description :: string
  ep_current_price :: rat
  ep_predicted_price :: pyfloat
  ep_price_trend :: rat
  ep_demand_score :: rat
  ep_quality_grade :: string
  ep_location :: "string option"
  ep_farmer :: string
  ep_image_url :: "string option"
  ep_market_insights :: insights

definition enhance_with_predictions ::
  "(rat list \<Rightarrow> error + pyfloat) \<Rightarrow> nat \<Rightarrow> listing list \<Rightarrow> enhanced_product list" where
  "enhance_with_predictions price_model month products =
     map (\<lambda>product.
            \<lparr> ep_id = listing_id product,
              ep_title = title product,
              ep_description = description product,
              ep_current_price = fl (price product),
              ep_predicted_price = predict_price price_model month product,
              ep_price_trend = price_trend product,
              ep_demand_score = demand_score product,
              ep_quality_grade = quality_grade product,
              ep_location = location product,
              ep_farmer = farmer_email product,
              ep_image_url = image_url product,
              ep_market_insights = get_market_insights product \<rparr>) products"

text \<open>
  \<open>_log_search_query\<close>: the new row of \<open>SearchQueryLog\<close> is written before the search
  runs; an exception of \<open>create\<close> is caught and the table stays as it was.
\<close>

definition log_search_query ::
  "row list \<Rightarrow> string \<Rightarrow> nat option \<Rightarrow> search_filters option \<Rightarrow> row list" where
  "log_search_query log_table query user filters =
     (case objects_create SearchQueryLog_fields log_table
             [(''user'', (case user of None \<Rightarrow> VNone | Some u \<Rightarrow> VUser u)),
              (''query'', VStr query),
              (''results_count'', VInt 0),
              (''filters_used'',
                 VDict (case filters of None \<Rightarrow> [] | Some f \<Rightarrow> filters_items f))] of
        Inr log_table' \<Rightarrow> log_table'
      | Inl e \<Rightarrow> log_table)"

definition get_search_suggestions :: "parsed_query \<Rightarrow> string list" where
  "get_search_suggestions parsed =
     (if pq_keywords parsed \<noteq> []
      then (let base_query = join_space (pq_keywords parsed)
            in take 5 [base_query @ '' organic'',
                       base_query @ '' premium quality'',
                       base_query @ '' bulk purchase'',
                       ''fresh '' @ base_query,
                       ''local '' @ base_query])
      else [])"

record search_response =
  sr_query :: string
  sr_parsed_query :: parsed_query
  sr_results :: "enhanced_product list"
  sr_total_count :: nat
  sr_suggestions :: "string list"

text \<open>
  The state a search call works on: the three tables it touches. The clock's month, the
  regressor and the full-text search are the environment.
\<close>

record search_env =
  env_fts :: "string \<Rightarrow> listing \<Rightarrow> rat option"
  env_price_model :: "rat list \<Rightarrow> error + pyfloat"
  env_month :: nat
  env_listings :: "listing list"
  env_preferences :: "user_preference list"

text \<open>
  \<open>search_products\<close>: the answer or the exception that leaves it, and the log table
  afterwards.
\<close>

definition search_products ::
  "search_env \<Rightarrow> row list \<Rightarrow> string \<Rightarrow> nat option \<Rightarrow> search_filters option \<Rightarrow> nat
     \<Rightarrow> (error + search_response) \<times> row list" where
  "search_products env log_table query user filters limit =
     (let log_table' = log_search_query log_table query user filters;
          parsed = parse_natural_language query;
          queryset = filter (\<lambda>l. status l = ''AVAILABLE'') (env_listings env);
          results1 = semantic_search (env_fts env) queryset parsed;
          results2 =
            (case filters of
               None \<Rightarrow> results1
             | Some f \<Rightarrow> (if filters_items f \<noteq> [] then apply_filters results1 f else results1))
      in case (case user of
                 None \<Rightarrow> Inr results2
               | Some u \<Rightarrow> apply_personalization (env_preferences env) results2 u) of
           Inl e \<Rightarrow> (Inl e, log_table')
         | Inr results \<Rightarrow>
             (Inr \<lparr> sr_query = query,
                    sr_parsed_query = parsed,
                    sr_results =
                      enhance_with_predictions (env_price_model env) (env_month env)
                        (take limit results),
                    sr_total_count = length results,
                    sr_suggestions = get_search_suggestions parsed \<rparr>,
              log_table'))"

section \<open>Listing serializer and personalized view (marketplace/serializers.py, views.py)\<close>








text \<open>
  \<open>ProductListingViewSet.personalized\<close>: the listings it serializes. \<open>get_or_create\<close>
  gives a user without preferences an empty row; the final \<open>order_by\<close> replaces the
  ordering of \<open>get_queryset\<close> and is a stable sort here.
\<close>

definition UserPreference_get_or_create :: "user_preference list \<Rightarrow> nat \<Rightarrow> user_preference" where
  "UserPreference_get_or_create table user =
     (case filter (\<lambda>p. pref_user p = user) table of
        [] \<Rightarrow> \<lparr> pref_user = user, preferred_categories = [], quality_preference = None,
                 price_range_min = None, price_range_max = None, preferred_location = [] \<rparr>
      | p # _ \<Rightarrow> p)"

definition personalized :: "user_preference list \<Rightarrow> listing list \<Rightarrow> nat \<Rightarrow> listing list" where
  "personalized table listings user =
     (let preferences = UserPreference_get_or_create table user;
          qs0 = filter (\<lambda>l. status l = ''AVAILABLE'') listings;
          qs1 = (if preferred_categories preferences \<noteq> []
                 then filter (\<lambda>l. category_id l \<in> set (preferred_categories preferences)) qs0
                 else qs0);
          qs2 = (if string_set (quality_preference preferences)
                 then filter (\<lambda>l. quality_grade l = the (quality_preference preferences)) qs1
                 else qs1);
          qs3 = (if decimal_set (price_range_min preferences)
                    \<and> decimal_set (price_range_max preferences)
                 then filter (\<lambda>l. the (price_range_min preferences) \<le> price l
                                  \<and> price l \<le> the (price_range_max preferences)) qs2
                 else qs2);
          qs4 = (if preferred_location preferences \<noteq> []
                 then filter (\<lambda>l. location_icontains l (preferred_location preferences)) qs3
                 else qs3)
      in take 20 (sort_key (\<lambda>l. (- demand_score l, - created_at l)) qs4))"

section \<open>Price prediction view (marketplace/views.py, class PricePredictionView)\<close>

text \<open>\<open>str(n)\<close> for an integer, as the f-strings print it.\<close>

fun str_nat :: "nat \<Rightarrow> string" where
  "str_nat n =
     (if n < 10 then [''0123456789'' ! n]
      else str_nat (n div 10) @ [''0123456789'' ! (n mod 10)])"

declare str_nat.simps [simp del]

definition str_int :: "int \<Rightarrow> string" where
  "str_int i = (if i < 0 then ''-'' @ str_nat (nat (- i)) else str_nat (nat i))"

text \<open>
  An HTTP response is its status code and its body. The clock gives the ISO time stamp,
  the day number and the month of \<open>timezone.now()\<close>.
\<close>

type_synonym response = "nat \<times> dict"

record clock =
  now_iso :: string
  now_day :: int
  now_month :: nat

text \<open>
  \<open>validated_data\<close> of \<open>PricePredictionRequestSerializer\<close>: every field has a default, so
  every key is present.
\<close>

record validated_data =
  cropType :: string
  market :: string
  predictionPeriod :: string
  useGlobal :: bool
  country :: string
  prediction_days :: int

text \<open>
  The module-level \<open>price_predictor\<close> comes from \<open>recommendations.ml_models\<close>, whose code
  is not part of these sources; the view is modelled for any predictor.
  \<open>predict_price_api\<close> returns a dict or raises. \<open>global_prediction\<close> stands for the
  branch of the view that asks the global model: the response that branch returns when
  the model reports success, \<open>None\<close> when the model reports failure or raises and the
  view goes on to the standard prediction.
\<close>

record predictor =
  has_predict_global_price :: bool
  global_prediction :: "validated_data \<Rightarrow> response option"
  predict_price_api :: "dict \<Rightarrow> error + dict"

definition fallback_base_prices :: "(string \<times> rat) list" where
  "fallback_base_prices =
     [(''Maize'', 48.50), (''Rice'', 55.25), (''Beans'', 65.80), (''Cassava'', 32.60),
      (''Wheat'', 42.75), (''Tomatoes'', 18.90), (''Potatoes'', 22.45)]"

text \<open>
  The price the fallback settles on before rounding, in float arithmetic; \<open>variation\<close>
  is the double drawn by \<open>random.uniform(-0.1, 0.1)\<close>.
\<close>

definition fallback_final_price :: "nat \<Rightarrow> rat \<Rightarrow> string \<Rightarrow> rat" where
  "fallback_final_price month variation crop_type =
     (let base_price = fl (case map_of fallback_base_prices crop_type of
                             None \<Rightarrow> 40.00 | Some p \<Rightarrow> p);
          seasonal_price =
            (if month \<in> set [12, 1, 2] then fmul base_price (fl 1.2)
             else if month \<in> set [6, 7, 8] then fmul base_price (fl 0.8)
             else base_price)
      in fmul seasonal_price (fadd 1 variation))"

text \<open>
  \<open>_get_fallback_prediction\<close>; \<open>jitter i\<close> is the double drawn by
  \<open>random.uniform(-0.05, 0.05)\<close> for day \<open>i\<close>. No statement of its \<open>try\<close> block raises.
\<close>

definition get_fallback_prediction ::
  "clock \<Rightarrow> rat \<Rightarrow> (nat \<Rightarrow> rat) \<Rightarrow> string \<Rightarrow> string \<Rightarrow> int \<Rightarrow> response" where
  "get_fallback_prediction clk variation jitter crop_type region days_ahead =
     (let final_price = fallback_final_price (now_month clk) variation crop_type;
          predictions =
            map (\<lambda>i. VDict [(''date'', VDate (now_day clk + int i)),
                            (''predicted_price'', VNum (round2 (fmul final_price (fadd 1 (jitter i))))),
                            (''crop'', VStr crop_type),
                            (''confidence'', VStr ''medium'')])
                [0 ..< nat (min 7 days_ahead)]
      in (200,
          [(''success'', VBool True),
           (''crop'', VStr crop_type),
           (''region'', VStr region),
           (''prediction_period'', VStr (str_int days_ahead @ '' days'')),
           (''predicted_price'', VNum (round2 final_price)),
           (''confidence'', VNum (fl 0.7)),
           (''trend'', VStr ''stable''),
           (''predictions'', VList predictions),
           (''price_range'',
              VDict [(''min'', VNum (round2 (fmul final_price (fl 0.85)))),
                     (''max'', VNum (round2 (fmul final_price (fl 1.15)))),
                     (''avg'', VNum (round2 final_price))]),
           (''current_price'', VNum (round2 final_price)),
           (''timestamp'', VStr (now_iso clk)),
           (''prediction_type'', VStr ''fallback''),
           (''data_sources'', VList [VStr ''fallback_model'']),
           (''message'',
              VStr (''Price prediction generated for '' @ crop_type @ '' (fallback mode)''))]))"

text \<open>The response built from a successful result of \<open>predict_price_api\<close>.\<close>

definition standard_response :: "clock \<Rightarrow> validated_data \<Rightarrow> dict \<Rightarrow> error + response" where
  "standard_response clk d result =
     (let response_data =
            [(''success'', VBool True),
             (''crop'', VStr (cropType d)),
             (''region'', VStr (market d)),
             (''prediction_period'', VStr (predictionPeriod d)),
             (''predicted_price'', dict_get result ''predicted_price'' (VInt 0)),
             (''confidence'', dict_get result ''confidence'' (VNum (fl 0.8))),
             (''trend'', dict_get result ''trend'' (VStr ''stable'')),
             (''predictions'', dict_get result ''predictions'' (VList [])),
             (''price_range'', dict_get result ''price_range'' (VDict [])),
             (''current_price'', dict_get result ''predicted_price'' (VInt 0)),
             (''timestamp'', VStr (now_iso clk)),
             (''prediction_type'', VStr ''standard''),
             (''message'', VStr (''Price prediction generated for '' @ cropType d))]
      in if truthy (dict_get result ''kaggle_enhanced'' VNone)
         then (case dict_get result ''data_sources'' (VList []) of
                 VList sources \<Rightarrow>
                   Inr (200, response_data @
                          [(''kaggle_enhanced'', VBool True),
                           (''kaggle_insights'', dict_get result ''kaggle_insights'' (VDict [])),
                           (''data_sources'', VList (sources @ [VStr ''kaggle'']))])
               | _ \<Rightarrow> Inl TypeError)
         else Inr (200, response_data @
                     [(''kaggle_enhanced'', VBool False),
                      (''data_sources'',
                         dict_get result ''data_sources'' (VList [VStr ''standard_model'']))]))"

text \<open>
  \<open>PricePredictionView.post\<close>. \<open>validated\<close> is the outcome of the serializer: its errors
  or the validated data. An exception of the standard path is caught by the outer
  \<open>except Exception\<close> and answered with status 500.
\<close>

definition unavailable_response :: response where
  "unavailable_response =
     (500, [(''success'', VBool False),
            (''error'', VStr ''Failed to generate price prediction''),
            (''message'',
               VStr ''Our price prediction service is temporarily unavailable.'')])"

definition prediction_request :: "validated_data \<Rightarrow> dict" where
  "prediction_request d =
     [(''cropType'', VStr (cropType d)), (''market'', VStr (market d)),
      (''prediction_days'', VInt (prediction_days d)), (''country'', VStr (country d))]"

definition post ::
  "predictor \<Rightarrow> clock \<Rightarrow> rat \<Rightarrow> (nat \<Rightarrow> rat) \<Rightarrow> dict + validated_data \<Rightarrow> response" where
  "post price_predictor clk variation jitter validated =
     (case validated of
        Inl errors \<Rightarrow>
          (400, [(''success'', VBool False), (''error'', VStr ''Invalid request data''),
                 (''details'', VDict errors)])
      | Inr d \<Rightarrow>
          (case (if useGlobal d \<and> has_predict_global_price price_predictor
                 then global_prediction price_predictor d else None) of
             Some global_response \<Rightarrow> global_response
           | None \<Rightarrow>
               (case predict_price_api price_predictor (prediction_request d) of
                  Inl e \<Rightarrow> unavailable_response
                | Inr result \<Rightarrow>
                    (if truthy (dict_get result ''success'' VNone)
                     then (case standard_response clk d result of
                             Inl e \<Rightarrow> unavailable_response
                           | Inr r \<Rightarrow> r)
                     else get_fallback_prediction clk variation jitter
                            (cropType d) (market d) (prediction_days d)))))"

section \<open>Scenario data\<close>

text \<open>
  An available listing with the given id, category and price, a buyer profile that sets
  nothing but a price range, and one that sets nothing but preferred categories.
\<close>

definition sample_listing :: "nat \<Rightarrow> nat \<Rightarrow> rat \<Rightarrow> listing" where
  "sample_listing i c p =
     \<lparr> listing_id = i, title = ''Fresh tomatoes'', description = ''Ripe tomatoes'',
       category_id = c, category_name = ''Vegetables'', category_keywords = [],
       price = p, quantity = 50, status = ''AVAILABLE'', quality_grade = ''STANDARD'',
       location = Some ''Nairobi'', demand_score = 0.5, price_trend = 0,
       created_at = int i, farmer_email = ''farmer@example.com'', image_url = None \<rparr>"

definition price_range_profile :: "nat \<Rightarrow> rat \<Rightarrow> rat \<Rightarrow> user_preference" where
  "price_range_profile u lo hi =
     \<lparr> pref_user = u, preferred_categories = [], quality_preference = None,
       price_range_min = Some lo, price_range_max = Some hi, preferred_location = [] \<rparr>"

definition category_profile :: "nat \<Rightarrow> nat list \<Rightarrow> user_preference" where
  "category_profile u cs =
     \<lparr> pref_user = u, preferred_categories = cs, quality_preference = None,
       price_range_min = None, price_range_max = None, preferred_location = [] \<rparr>"

text \<open>
  A regressor that answers with the given outcome whatever the features, and a random
  source that always draws 0.
\<close>

definition regressor_answering :: "error + pyfloat \<Rightarrow> rat list \<Rightarrow> error + pyfloat" where
  "regressor_answering outcome features = outcome"

definition no_jitter :: "nat \<Rightarrow> rat" where
  "no_jitter i = 0"

text \<open>
  An environment with one available listing, a full-text search that matches everything
  with rank 1 and a regressor that answers 42.
\<close>

definition sample_env :: search_env where
  "sample_env =
     \<lparr> env_fts = (\<lambda>q l. Some 1), env_price_model = regressor_answering (Inr (Finite 42)), env_month = 11,
       env_listings = [sample_listing 1 1 15], env_preferences = [] \<rparr>"


definition sample_request :: validated_data where
  "sample_request =
     \<lparr> cropType = ''Maize'', market = ''General Market'', predictionPeriod = ''1 Month'',
       useGlobal = False, country = ''global'', prediction_days = 30 \<rparr>"

definition sample_clock :: clock where
  "sample_clock = \<lparr> now_iso = ''2026-11-04T12:00:00'', now_day = 20761, now_month = 11 \<rparr>"

text \<open>
  A predictor without a global model whose \<open>predict_price_api\<close> answers with the given
  outcome whatever the request.
\<close>

definition predictor_answering :: "error + dict \<Rightarrow> predictor" where
  "predictor_answering outcome =
     \<lparr> has_predict_global_price = False, global_prediction = (\<lambda>d. None),
       predict_price_api = (\<lambda>request. outcome) \<rparr>"

section \<open>Properties of the query parser\<close>

lemma price_loop_last_match:
  "price_loop query xs current =
     (case last_match (\<lambda>i. str_in i query) xs of
        None \<Rightarrow> current
      | Some i \<Rightarrow> Some (price_band i))"
  by (induction xs arbitrary: current) (auto simp: last_match_def split: list.splits)

lemma quality_loop_first_match:
  "quality_loop query xs current =
     (case first_match (\<lambda>(t, g). str_in t query) xs of
        None \<Rightarrow> current
      | Some (t, g) \<Rightarrow> Some g)"
  by (induction xs arbitrary: current) (auto simp: first_match_def split: list.splits)

text \<open>
  C9. For every raw query the parser sets the quality hint to the grade of the first
  entry of the quality lexicon that occurs in the lower-cased, trimmed query, and the
  price band to the band of the last entry of the price lexicon that occurs in it.
\<close>

theorem parser_scan_policies:
  "pq_quality (parse_natural_language raw) =
     map_option snd (first_match (\<lambda>(t, g). str_in t (strip (lower raw))) quality_terms)
   \<and> pq_price_range (parse_natural_language raw) =
     map_option price_band (last_match (\<lambda>i. str_in i (strip (lower raw))) price_indicators)"
  by (simp add: parse_natural_language_def Let_def price_loop_last_match
        quality_loop_first_match split: option.splits prod.splits)

text \<open>
  The two policies differ on "premium budget": the price band follows the later
  indicator \<open>premium\<close> although \<open>budget\<close> occurs too, the quality follows the earlier
  term \<open>premium\<close> although \<open>budget\<close> occurs too.
\<close>

lemma parser_scan_asymmetry:
  "pq_price_range (parse_natural_language ''premium budget'') = Some ''high''
   \<and> price_band ''budget'' = ''low''
   \<and> pq_quality (parse_natural_language ''premium budget'') = Some ''PREMIUM''
   \<and> map_of quality_terms ''budget'' = Some ''ECONOMY''"
  by code_simp

text \<open>
  C4, as the specification states it, fails: the parsed keywords of the scenario query
  are not just \<open>tomatoes\<close>.
\<close>

theorem parse_scenario_counterexample:
  "parse_natural_language ''cheap organic tomatoes near nairobi'' \<noteq>
     \<lparr> pq_keywords = [''tomatoes''], pq_category = None, pq_price_range = Some ''low'',
       pq_quality = Some ''PREMIUM'', pq_location = Some ''nairobi'' \<rparr>"
  by code_simp

text \<open>
  C4, amended. Parsing "cheap organic tomatoes near nairobi" yields the price band
  \<open>low\<close>, the quality \<open>PREMIUM\<close>, the location \<open>nairobi\<close>, no category, and all five
  words as keywords: none of them is a stop word or shorter than three characters.
\<close>

theorem parse_scenario_intent:
  "parse_natural_language ''cheap organic tomatoes near nairobi'' =
     \<lparr> pq_keywords = [''cheap'', ''organic'', ''tomatoes'', ''near'', ''nairobi''],
       pq_category = None, pq_price_range = Some ''low'',
       pq_quality = Some ''PREMIUM'', pq_location = Some ''nairobi'' \<rparr>"
  by code_simp

section \<open>Properties of the price predictor\<close>

text \<open>
  The lookup of \<open>predict_market_prices\<close> names \<open>prediction_horizon\<close> and
  \<open>prediction_date\<close>, which are no fields of \<open>PricePrediction\<close>; whatever the table and
  the arguments, the body raises at its first statement.
\<close>

lemma predict_body_raises:
  "predict_body table today month crop_type region days_ahead = Inl FieldError"
  by (simp add: predict_body_def objects_filter_def PricePrediction_fields_def)

lemma generate_price_prediction_raises:
  "generate_price_prediction month crop_type region days_ahead = Inl AttributeError"
  by (simp add: generate_price_prediction_def self_call_def PricePredictor_attributes_def)

lemma predict_market_prices_unavailable:
  "predict_market_prices table today month crop_type region days_ahead =
     ([(''crop_type'', VStr crop_type), (''region'', VStr region),
       (''error'', VStr ''Prediction unavailable''),
       (''horizon_days'', VInt days_ahead)], table)"
  by (simp add: predict_market_prices_def predict_body_raises)

text \<open>
  C1 fails on the code. Two calls of \<open>predict_market_prices\<close> for Maize, Central Kenya,
  30 days on the same day, starting from an empty table: both answer "Prediction
  unavailable" without \<open>source\<close> or \<open>predicted_price\<close>, and the table stays empty.
\<close>

theorem predict_twice_same_day:
  "(let (first_answer, table1) =
          predict_market_prices [] 20761 11 ''Maize'' ''Central Kenya'' 30;
        (second_answer, table2) =
          predict_market_prices table1 20761 11 ''Maize'' ''Central Kenya'' 30
    in table1 = [] \<and> table2 = []
       \<and> map_of first_answer ''source'' = None
       \<and> map_of first_answer ''predicted_price'' = None
       \<and> map_of first_answer ''error'' = Some (VStr ''Prediction unavailable'')
       \<and> map_of second_answer ''source'' = None
       \<and> second_answer = first_answer)"
  by (simp add: predict_market_prices_def predict_body_def objects_filter_def
        PricePrediction_fields_def)

text \<open>
  C3 fails on the code. For the horizons 7 and 30 (Maize, Central Kenya, the same day)
  \<open>_generate_price_prediction\<close> raises \<open>AttributeError\<close> before it reaches the
  confidence expression, and the answers of \<open>predict_market_prices\<close> carry no
  confidence at all, so there are no two confidences to compare.
\<close>

theorem confidence_two_horizons_scenario:
  "generate_price_prediction 11 ''Maize'' ''Central Kenya'' 7 = Inl AttributeError
   \<and> generate_price_prediction 11 ''Maize'' ''Central Kenya'' 30 = Inl AttributeError
   \<and> map_of (fst (predict_market_prices [] 20761 11 ''Maize'' ''Central Kenya'' 7))
         ''confidence'' = None
   \<and> map_of (fst (predict_market_prices [] 20761 11 ''Maize'' ''Central Kenya'' 30))
         ''confidence'' = None"
  by (simp add: generate_price_prediction_def self_call_def PricePredictor_attributes_def
        predict_market_prices_def predict_body_def objects_filter_def
        PricePrediction_fields_def)

section \<open>Properties of the listing serializer\<close>


section \<open>Properties of the search engine\<close>

text \<open>
  The search engine has an insight generator of its own, with other labels and another
  lower cut point: \<open>High\<close> above \<open>0.7\<close>, \<open>Low\<close> below \<open>0.3\<close>, \<open>Medium\<close> otherwise.
\<close>

lemma engine_demand_level_cut_points:
  "demand_level (get_market_insights product) =
     (if demand_score product > 0.7 then ''High''
      else if demand_score product < 0.3 then ''Low''
      else ''Medium'')"
  by (simp add: get_market_insights_def Let_def)

text \<open>
  The annotation of the preference boost reads the global name \<open>models\<close>, which the
  module does not bind: with a non-empty set of preferred categories the personalization
  raises \<open>NameError\<close>.
\<close>

lemma annotate_preference_boost_raises:
  "annotate_preference_boost preferences queryset = Inl NameError"
  by (simp add: annotate_preference_boost_def global_name_def ai_search_globals_def)

lemma apply_personalization_with_categories:
  assumes "UserPreference_get table user = Inr preferences"
    and "preferred_categories preferences \<noteq> []"
  shows "apply_personalization table queryset user = Inl NameError"
  using assms by (simp add: apply_personalization_def annotate_preference_boost_raises)

text \<open>
  C6 fails on the code. For a buyer who prefers category 1 and a ranked list with one
  listing of category 1 and one of category 2, the search engine's personalization
  raises \<open>NameError\<close> instead of returning the listing of category 1, and so does the
  search that calls it; the personalized-recommendations view returns exactly the
  listing of category 1.
\<close>

theorem personalization_category_scenario:
  "apply_personalization [category_profile 1 [1]]
      [sample_listing 1 1 15, sample_listing 2 2 15] 1 = Inl NameError
   \<and> fst (search_products
            (sample_env\<lparr> env_listings := [sample_listing 1 1 15, sample_listing 2 2 15],
                         env_preferences := [category_profile 1 [1]] \<rparr>)
            [] ''tomatoes'' (Some 1) None 20) = Inl NameError
   \<and> personalized [category_profile 1 [1]]
        [sample_listing 1 1 15, sample_listing 2 2 15] 1 = [sample_listing 1 1 15]"
  by code_simp

text \<open>
  C7. For a buyer whose profile sets only the price range 10 to 20, personalizing a
  list of three listings priced 5, 15 and 25 returns exactly the listing priced 15.
\<close>

theorem personalize_price_range_scenario:
  assumes "price l5 = 5" and "price l15 = 15" and "price l25 = 25"
    and "pref_user p = u"
    and "preferred_categories p = []" and "quality_preference p = None"
    and "price_range_min p = Some 10" and "price_range_max p = Some 20"
  shows "apply_personalization [p] [l5, l15, l25] u = Inr [l15]"
  using assms
  by (simp add: apply_personalization_def UserPreference_get_def decimal_set_def
        string_set_def)

text \<open>
  The scenario on concrete rows; the personalized-recommendations view gives the same
  answer.
\<close>

theorem personalize_price_range_scenario_witness:
  "apply_personalization [price_range_profile 1 10 20]
     [sample_listing 1 1 5, sample_listing 2 1 15, sample_listing 3 1 25] 1
     = Inr [sample_listing 2 1 15]
   \<and> personalized [price_range_profile 1 10 20]
     [sample_listing 1 1 5, sample_listing 2 1 15, sample_listing 3 1 25] 1
     = [sample_listing 2 1 15]"
proof -
  have view: "personalized [price_range_profile 1 10 20]
     [sample_listing 1 1 5, sample_listing 2 1 15, sample_listing 3 1 25] 1
     = [sample_listing 2 1 15]"
    by code_simp
  have engine: "apply_personalization [price_range_profile 1 10 20]
     [sample_listing 1 1 5, sample_listing 2 1 15, sample_listing 3 1 25] 1
     = Inr [sample_listing 2 1 15]"
    by (rule personalize_price_range_scenario)
       (simp_all add: sample_listing_def price_range_profile_def)
  from engine view show ?thesis by blast
qed

text \<open>
  \<open>_log_search_query\<close> passes \<open>filters_used\<close>, which is no field of \<open>SearchQueryLog\<close>
  (the field is \<open>filters_applied\<close>); \<open>create\<close> raises, the exception is caught, and the
  log table is what it was.
\<close>

lemma log_search_query_unchanged:
  "log_search_query log_table query user filters = log_table"
  by (simp add: log_search_query_def objects_create_def SearchQueryLog_fields_def)

lemma search_products_log_unchanged:
  "snd (search_products env log_table query user filters limit) = log_table"
  by (simp add: search_products_def Let_def log_search_query_unchanged
        split: sum.splits option.splits)

text \<open>
  C8 fails on the code. A search for "tomatoes" over one matching listing returns one
  result, and the log table, empty before the call, is empty after it: no entry with
  \<open>results_count = 1\<close> has been written.
\<close>

theorem search_products_log_scenario:
  "(case search_products sample_env [] ''tomatoes'' None None 20 of
      (Inr answer, log_table) \<Rightarrow>
        length (sr_results answer) = 1 \<and> sr_total_count answer = 1 \<and> log_table = []
    | (Inl e, log_table) \<Rightarrow> False)"
  by code_simp

text \<open>
  What \<open>_predict_price\<close> attaches: the regressor's number floored at the double
  \<open>0.1\<close>, which is positive; the current price when the regressor raises; and "not a
  number" when the regressor answers "not a number".
\<close>

lemma fl_tenth: "fl 0.1 = 3602879701896397 / 36028797018963968"
  by code_simp

lemma predict_price_number:
  assumes "price_model (price_features month product) = Inr (Finite p)"
  shows "predict_price price_model month product = Finite (max p (fl 0.1))
         \<and> float_positive (predict_price price_model month product)"
  using assms
  by (auto simp: predict_price_def py_max_def float_positive_def fl_tenth max_def)

lemma predict_price_raise:
  assumes "price_model (price_features month product) = Inl e"
  shows "predict_price price_model month product = Finite (fl (price product))"
  using assms by (simp add: predict_price_def)

lemma predict_price_nan:
  assumes "price_model (price_features month product) = Inr NaN"
  shows "predict_price price_model month product = NaN"
  using assms by (simp add: predict_price_def py_max_def)

lemma enhance_attaches_predict_price:
  "map ep_predicted_price (enhance_with_predictions price_model month products)
     = map (predict_price price_model month) products"
  by (simp add: enhance_with_predictions_def comp_def)


section \<open>Properties of the price prediction view\<close>

text \<open>
  When \<open>predict_price_api\<close> returns a result without success and the global model has
  not answered, the view answers with the fallback heuristic.
\<close>

lemma post_reported_failure:
  assumes "useGlobal d \<and> has_predict_global_price P \<longrightarrow> global_prediction P d = None"
    and "predict_price_api P (prediction_request d) = Inr result"
    and "\<not> truthy (dict_get result ''success'' VNone)"
  shows "post P clk variation jitter (Inr d)
           = get_fallback_prediction clk variation jitter
               (cropType d) (market d) (prediction_days d)
         \<and> map_of (snd (post P clk variation jitter (Inr d))) ''prediction_type''
             = Some (VStr ''fallback'')"
proof -
  have "post P clk variation jitter (Inr d)
          = get_fallback_prediction clk variation jitter
              (cropType d) (market d) (prediction_days d)"
    using assms by (auto simp: post_def)
  then show ?thesis by (simp add: get_fallback_prediction_def Let_def)
qed

text \<open>
  C2 fails on the code. When \<open>predict_price_api\<close> raises for a valid request for
  Maize, the view answers with status 500 and a body without predicted price and
  without \<open>prediction_type\<close>; and \<open>predict_market_prices\<close> for Maize, Central Kenya,
  30 days, whose lookup raises, answers with a record without predicted price and
  without \<open>prediction_type\<close>. Neither caller receives the fallback prediction.
\<close>

theorem prediction_raise_scenario:
  "post (predictor_answering (Inl EstimatorError)) sample_clock 0 no_jitter
       (Inr sample_request) = unavailable_response
   \<and> fst unavailable_response = 500
   \<and> map_of (snd unavailable_response) ''prediction_type'' = None
   \<and> map_of (snd unavailable_response) ''predicted_price'' = None
   \<and> predict_body [] 20761 11 ''Maize'' ''Central Kenya'' 30 = Inl FieldError
   \<and> map_of (fst (predict_market_prices [] 20761 11 ''Maize'' ''Central Kenya'' 30))
         ''prediction_type'' = None
   \<and> map_of (fst (predict_market_prices [] 20761 11 ''Maize'' ''Central Kenya'' 30))
         ''predicted_price'' = None"
  by (simp add: post_def predictor_answering_def sample_request_def unavailable_response_def
        predict_market_prices_def predict_body_def objects_filter_def
        PricePrediction_fields_def)

end
